theory Spec2Isabelle
  imports Complex_Main
begin

section \<open>Numbers of the simulation engine\<close>

text \<open>
  The engine (\<^verbatim>\<open>simulationEngine.ts\<close>) computes with JavaScript numbers.  Finite values
  are modelled as exact reals: rounding, overflow and the sign of zero are outside the
  model.  The values that finite operands can still produce, by a division by zero or
  by \<^verbatim>\<open>Math.pow\<close>, are kept: \<open>PInf\<close>, \<open>NInf\<close> and \<open>NaN\<close>, with the arithmetic and the
  comparisons of IEEE 754 on them.

  The fields of a configuration and of the catalogue records are finite numbers (the
  catalogue holds literals, the form yields finite values), hence of type \<open>real\<close>; so
  are the simulated time and everything computed from these by operations that stay
  finite.  A quantity that a division or \<^verbatim>\<open>Math.pow\<close> feeds has type \<open>number\<close>.
  Arrays are lists, of any length.
\<close>

datatype number = Fin real | PInf | NInf | NaN


fun n_neg :: "number \<Rightarrow> number" where
  "n_neg (Fin a) = Fin (- a)"
| "n_neg PInf = NInf"
| "n_neg NInf = PInf"
| "n_neg NaN = NaN"

text \<open>\<^verbatim>\<open>a + b\<close>: opposite infinities give NaN.\<close>

fun n_add :: "number \<Rightarrow> number \<Rightarrow> number" where
  "n_add (Fin a) (Fin b) = Fin (a + b)"
| "n_add (Fin a) PInf = PInf"
| "n_add (Fin a) NInf = NInf"
| "n_add PInf (Fin b) = PInf"
| "n_add PInf PInf = PInf"
| "n_add PInf NInf = NaN"
| "n_add NInf (Fin b) = NInf"
| "n_add NInf PInf = NaN"
| "n_add NInf NInf = NInf"
| "n_add NaN b = NaN"
| "n_add a NaN = NaN"

definition n_sub :: "number \<Rightarrow> number \<Rightarrow> number" where
  "n_sub a b = n_add a (n_neg b)"

text \<open>The sign of an infinity multiplied or divided by a finite value \<open>b\<close>.\<close>

definition inf_signed :: "bool \<Rightarrow> number" where
  "inf_signed positive = (if positive then PInf else NInf)"

text \<open>\<^verbatim>\<open>a * b\<close>: an infinity times zero is NaN.\<close>

fun n_mul :: "number \<Rightarrow> number \<Rightarrow> number" where
  "n_mul (Fin a) (Fin b) = Fin (a * b)"
| "n_mul (Fin a) PInf = (if a = 0 then NaN else inf_signed (0 < a))"
| "n_mul (Fin a) NInf = (if a = 0 then NaN else inf_signed (a < 0))"
| "n_mul PInf (Fin b) = (if b = 0 then NaN else inf_signed (0 < b))"
| "n_mul NInf (Fin b) = (if b = 0 then NaN else inf_signed (b < 0))"
| "n_mul PInf PInf = PInf"
| "n_mul PInf NInf = NInf"
| "n_mul NInf PInf = NInf"
| "n_mul NInf NInf = PInf"
| "n_mul NaN b = NaN"
| "n_mul a NaN = NaN"

text \<open>
  \<^verbatim>\<open>a / b\<close>: zero by zero and infinity by infinity are NaN, another finite value by
  zero is an infinity of its sign (the zero counts as positive).
\<close>

fun n_div :: "number \<Rightarrow> number \<Rightarrow> number" where
  "n_div (Fin a) (Fin b) =
     (if b = 0 then (if a = 0 then NaN else inf_signed (0 < a)) else Fin (a / b))"
| "n_div (Fin a) PInf = Fin 0"
| "n_div (Fin a) NInf = Fin 0"
| "n_div PInf (Fin b) = inf_signed (0 \<le> b)"
| "n_div NInf (Fin b) = inf_signed (b < 0)"
| "n_div PInf PInf = NaN"
| "n_div PInf NInf = NaN"
| "n_div NInf PInf = NaN"
| "n_div NInf NInf = NaN"
| "n_div NaN b = NaN"
| "n_div a NaN = NaN"

text \<open>\<^verbatim>\<open>a < b\<close>: false as soon as one side is NaN.\<close>

fun n_lt :: "number \<Rightarrow> number \<Rightarrow> bool" where
  "n_lt (Fin a) (Fin b) = (a < b)"
| "n_lt (Fin a) PInf = True"
| "n_lt NInf (Fin b) = True"
| "n_lt NInf PInf = True"
| "n_lt a b = False"

definition n_gt :: "number \<Rightarrow> number \<Rightarrow> bool" where
  "n_gt a b = n_lt b a"

text \<open>\<^verbatim>\<open>a <= b\<close>, used to state ranges.\<close>

fun n_le :: "number \<Rightarrow> number \<Rightarrow> bool" where
  "n_le (Fin a) (Fin b) = (a \<le> b)"
| "n_le (Fin a) PInf = True"
| "n_le (Fin a) NInf = False"
| "n_le PInf (Fin b) = False"
| "n_le PInf PInf = True"
| "n_le PInf NInf = False"
| "n_le NInf (Fin b) = True"
| "n_le NInf PInf = True"
| "n_le NInf NInf = True"
| "n_le NaN b = False"
| "n_le a NaN = False"

text \<open>\<^verbatim>\<open>Math.max(a, b)\<close> and \<^verbatim>\<open>Math.min(a, b)\<close>: NaN as soon as one argument is NaN.\<close>

fun Math_max :: "number \<Rightarrow> number \<Rightarrow> number" where
  "Math_max NaN b = NaN"
| "Math_max a NaN = NaN"
| "Math_max a b = (if n_lt a b then b else a)"

fun Math_min :: "number \<Rightarrow> number \<Rightarrow> number" where
  "Math_min NaN b = NaN"
| "Math_min a NaN = NaN"
| "Math_min a b = (if n_lt b a then b else a)"

text \<open>
  \<^verbatim>\<open>Math.max(...xs)\<close> and \<^verbatim>\<open>Math.min(...xs)\<close>: with no argument they are
  \<^verbatim>\<open>-Infinity\<close> and \<^verbatim>\<open>Infinity\<close>.
\<close>

definition Math_max_list :: "number list \<Rightarrow> number" where
  "Math_max_list xs = foldl Math_max NInf xs"

definition Math_min_list :: "number list \<Rightarrow> number" where
  "Math_min_list xs = foldl Math_min PInf xs"

text \<open>
  \<^verbatim>\<open>Math.pow(x, y)\<close> on finite arguments: 1 for a zero exponent; zero to a negative
  power is \<^verbatim>\<open>Infinity\<close>; a negative base has a value for an integer exponent only, NaN
  otherwise.
\<close>

definition Math_pow :: "real \<Rightarrow> real \<Rightarrow> number" where
  "Math_pow x y =
     (if y = 0 then Fin 1
      else if 0 < x then Fin (x powr y)
      else if x = 0 then (if 0 < y then Fin 0 else PInf)
      else if of_int \<lfloor>y\<rfloor> = y then Fin (x powi \<lfloor>y\<rfloor>)
      else NaN)"

text \<open>
  \<^verbatim>\<open>a % b\<close> on finite numbers, for a divisor that is not zero (both uses divide by a
  positive constant): the remainder of the division truncated towards zero, with the
  sign of \<open>a\<close>.
\<close>

definition js_trunc :: "real \<Rightarrow> int" where
  "js_trunc x = (if 0 \<le> x then \<lfloor>x\<rfloor> else \<lceil>x\<rceil>)"

definition js_rem :: "real \<Rightarrow> real \<Rightarrow> real" where
  "js_rem a b = a - b * of_int (js_trunc (a / b))"

section \<open>Environment model\<close>

text \<open>\<^verbatim>\<open>PSYCHE_CONSTANTS\<close>.\<close>

definition SOLAR_CONSTANT_EARTH :: real where "SOLAR_CONSTANT_EARTH = 1361"
definition DISTANCE_AU :: real where "DISTANCE_AU = 2.9"
definition ROTATION_PERIOD :: real where "ROTATION_PERIOD = 4.2"
definition TEMP_MIN :: real where "TEMP_MIN = 100"
definition TEMP_MAX :: real where "TEMP_MAX = 270"
definition TEMP_REF :: real where "TEMP_REF = 298"

definition getSolarIrradiance :: real where
  "getSolarIrradiance = SOLAR_CONSTANT_EARTH / (DISTANCE_AU ^ 2)"

definition getSunAngle :: "real \<Rightarrow> real" where
  "getSunAngle timeHours =
     (let rotationsPerHour = 1 / ROTATION_PERIOD;
          angle = js_rem (timeHours * rotationsPerHour * 2 * pi) (2 * pi)
      in angle)"

definition getSurfaceTemperature :: "real \<Rightarrow> real" where
  "getSurfaceTemperature sunAngle =
     (let tempRange = TEMP_MAX - TEMP_MIN;
          temp = TEMP_MIN + tempRange * max 0 (cos sunAngle)
      in temp)"

section \<open>Generation model\<close>

definition calculateConcentratorPower :: "real \<Rightarrow> real \<Rightarrow> number \<Rightarrow> number" where
  "calculateConcentratorPower timeHours concentratorArea concentratorEfficiency =
     (let irradiance = getSolarIrradiance;
          sunAngle = getSunAngle timeHours;
          cosineLoss = max 0 (cos sunAngle)
      in n_mul (n_mul (Fin (irradiance * concentratorArea)) concentratorEfficiency)
               (Fin cosineLoss))"

text \<open>The concentration ratio and the PV area are parameters that the body never reads.\<close>

definition calculatePVPower ::
  "number \<Rightarrow> real \<Rightarrow> real \<Rightarrow> number \<Rightarrow> real \<Rightarrow> real \<Rightarrow> number" where
  "calculatePVPower concentratedPower concentrationRatio pvArea pvEfficiency
                    tempCoefficient surfaceTemp =
     (let tempDelta = surfaceTemp - TEMP_REF;
          efficiencyAdjustment = 1 + (tempCoefficient * tempDelta);
          actualEfficiency = n_mul pvEfficiency (Fin (max 0.1 efficiencyAdjustment))
      in n_mul concentratedPower actualEfficiency)"

section \<open>Load model\<close>

definition calculatePowerConsumption :: "real \<Rightarrow> real \<Rightarrow> real" where
  "calculatePowerConsumption timeHours baseLoad =
     (let sunAngle = getSunAngle timeHours;
          isDay = (cos sunAngle > 0);
          totalLoad = baseLoad;
          totalLoad = (if isDay then totalLoad + baseLoad * 1.5 else totalLoad);
          commCycle = js_rem timeHours 6;
          totalLoad = (if commCycle < 0.5 then totalLoad + baseLoad * 0.8 else totalLoad);
          totalLoad = (if \<not> isDay then totalLoad + baseLoad * 1.0 else totalLoad)
      in totalLoad)"

section \<open>Battery integrator\<close>

definition updateBatterySOC ::
  "number \<Rightarrow> number \<Rightarrow> real \<Rightarrow> real \<Rightarrow> real \<Rightarrow> real \<Rightarrow> number" where
  "updateBatterySOC currentSOC powerNet batteryCapacity chargeEfficiency
                    dischargeEfficiency timeStep =
     (let energyChange = n_mul powerNet (Fin timeStep);
          energyChange = (if n_gt energyChange (Fin 0)
                          then n_mul energyChange (Fin chargeEfficiency)
                          else n_div energyChange (Fin dischargeEfficiency));
          socChange = n_div energyChange (Fin batteryCapacity);
          newSOC = n_add currentSOC socChange;
          newSOC = Math_max (Fin 0.15) (Math_min (Fin 0.95) newSOC)
      in newSOC)"

section \<open>Technology records and the configuration\<close>

text \<open>The interfaces of \<^verbatim>\<open>technologies.ts\<close>; the engine reads the numeric fields only.\<close>

datatype era = historical | current | theoretical

record ConcentratorTechnology =
  name :: string
  concentration_ratio :: real
  efficiency :: real
  mass_per_m2 :: real
  trl :: real
  era :: era

record PVTechnology =
  name :: string
  efficiency :: real
  temp_coefficient :: real
  degradation_rate :: real
  mass_per_m2 :: real
  trl :: real
  era :: era

record BatteryTechnology =
  name :: string
  energy_density :: real
  cycle_life :: real
  charge_efficiency :: real
  discharge_efficiency :: real
  self_discharge_rate :: real
  mass_per_wh :: real
  trl :: real
  era :: era

text \<open>
  \<^verbatim>\<open>SimulationConfig\<close>.  The engine tests \<^verbatim>\<open>config.pvCell\<close> and \<^verbatim>\<open>config.battery\<close> for
  presence although their types are not nullable, so all three references are
  options here.
\<close>

record SimulationConfig =
  concentrator :: "ConcentratorTechnology option"
  pvCell :: "PVTechnology option"
  battery :: "BatteryTechnology option"
  concentratorArea :: real
  pvArea :: real
  batteryCapacity :: real
  baseLoad :: real
  durationHours :: real
  yearsInOperation :: real

section \<open>Simulation driver\<close>

text \<open>The variables that the loop of \<^verbatim>\<open>runSimulation\<close> updates; \<^verbatim>\<open>push\<close> appends.\<close>

record SimulationState =
  currentSOC :: number
  time :: "real list"
  powerGenerated :: "number list"
  powerConsumed :: "real list"
  batterySOC :: "number list"
  temperature :: "real list"

text \<open>One pass through the body of the loop, at index \<open>step\<close>.\<close>

definition simulationStep ::
  "SimulationConfig \<Rightarrow> PVTechnology \<Rightarrow> BatteryTechnology \<Rightarrow> number \<Rightarrow> number \<Rightarrow> real
     \<Rightarrow> nat \<Rightarrow> SimulationState \<Rightarrow> SimulationState" where
  "simulationStep config pv bat concentratorEff pvEff timeStep step s =
     (let t = real step * timeStep;
          sunAngle = getSunAngle t;
          surfaceTemp = getSurfaceTemperature sunAngle;
          pvPower =
            (case concentrator config of
               Some conc \<Rightarrow>
                 (let concentratorPower =
                        calculateConcentratorPower t (concentratorArea config) concentratorEff
                  in calculatePVPower concentratorPower (concentration_ratio conc)
                       (pvArea config) pvEff (temp_coefficient pv) surfaceTemp)
             | None \<Rightarrow>
                 (let irradiance = getSolarIrradiance;
                      sunAngleCalc = getSunAngle t;
                      cosineLoss = max 0 (cos sunAngleCalc);
                      incidentPower = irradiance * pvArea config * cosineLoss;
                      tempDelta = surfaceTemp - TEMP_REF;
                      efficiencyAdjustment = 1 + (temp_coefficient pv * tempDelta);
                      actualEfficiency = n_mul pvEff (Fin (max 0.1 efficiencyAdjustment))
                  in n_mul (Fin incidentPower) actualEfficiency));
          loadPower = calculatePowerConsumption t (baseLoad config);
          netPower = n_sub pvPower (Fin loadPower);
          newSOC = updateBatterySOC (currentSOC s) netPower (batteryCapacity config)
                     (charge_efficiency bat) (discharge_efficiency bat) timeStep
      in \<lparr>currentSOC = newSOC,
          time = SimulationState.time s @ [t],
          powerGenerated = powerGenerated s @ [pvPower],
          powerConsumed = powerConsumed s @ [loadPower],
          batterySOC = batterySOC s @ [newSOC],
          temperature = SimulationState.temperature s @ [surfaceTemp]\<rparr>)"

text \<open>\<^verbatim>\<open>for (let step = 0; step < numSteps; step++) { ... }\<close>, entered at \<open>step\<close>.\<close>

function simulationLoop ::
  "SimulationConfig \<Rightarrow> PVTechnology \<Rightarrow> BatteryTechnology \<Rightarrow> number \<Rightarrow> number \<Rightarrow> real
     \<Rightarrow> int \<Rightarrow> nat \<Rightarrow> SimulationState \<Rightarrow> SimulationState" where
  "simulationLoop config pv bat concentratorEff pvEff timeStep numSteps step s =
     (if int step < numSteps
      then simulationLoop config pv bat concentratorEff pvEff timeStep numSteps (Suc step)
             (simulationStep config pv bat concentratorEff pvEff timeStep step s)
      else s)"
  by pat_completeness auto
termination
  by (relation "measure (\<lambda>(config, pv, bat, concentratorEff, pvEff, timeStep, numSteps, step, s).
                 nat (numSteps - int step))") auto

declare simulationLoop.simps [simp del]

text \<open>\<^verbatim>\<open>SimulationResult\<close> and its metrics.  \<^verbatim>\<open>final_soc\<close> is \<^verbatim>\<open>undefined\<close> (\<open>None\<close>) when
  the series is empty.\<close>

record Metrics =
  avg_power_generated :: number
  peak_power_generated :: number
  avg_power_consumed :: number
  peak_power_consumed :: number
  energy_balance :: number
  min_soc :: number
  final_soc :: "number option"
  system_health :: nat
  viable :: bool

record SimulationResult =
  time :: "real list"
  power_generated :: "number list"
  power_consumed :: "real list"
  battery_soc :: "number list"
  temperature :: "real list"
  metrics :: Metrics

datatype error = Error string

definition runSimulation :: "SimulationConfig \<Rightarrow> error + SimulationResult" where
  "runSimulation config =
     (case pvCell config of
        None \<Rightarrow> Inl (Error ''Cannot run simulation without photovoltaic cells'')
      | Some pv \<Rightarrow>
     (case battery config of
        None \<Rightarrow> Inl (Error ''Cannot run simulation without battery'')
      | Some bat \<Rightarrow>
     (let timeStep = 0.1;
          numSteps = \<lfloor>durationHours config / timeStep\<rfloor>;
          concentratorEff =
            (case concentrator config of
               Some conc \<Rightarrow> n_mul (Fin (ConcentratorTechnology.efficiency conc))
                              (Math_pow (1 - 0.001) (yearsInOperation config))
             | None \<Rightarrow> Fin 0);
          pvEff = n_mul (Fin (PVTechnology.efficiency pv))
                    (Math_pow (1 - degradation_rate pv) (yearsInOperation config));
          s = simulationLoop config pv bat concentratorEff pvEff timeStep numSteps 0
                \<lparr>currentSOC = Fin 0.80, time = [], powerGenerated = [], powerConsumed = [],
                 batterySOC = [], temperature = []\<rparr>;
          avgPowerGenerated = n_div (foldl n_add (Fin 0) (powerGenerated s))
                                (Fin (real (length (powerGenerated s))));
          peakPowerGenerated = Math_max_list (powerGenerated s);
          avgPowerConsumed = n_div (Fin (foldl (+) 0 (powerConsumed s)))
                               (Fin (real (length (powerConsumed s))));
          peakPowerConsumed = Math_max_list (map Fin (powerConsumed s));
          totalEnergyGenerated =
            foldl (\<lambda>sum p. n_add sum (n_mul p (Fin timeStep))) (Fin 0) (powerGenerated s);
          totalEnergyConsumed = foldl (\<lambda>sum p. sum + p * timeStep) 0 (powerConsumed s);
          energyBalance = n_sub totalEnergyGenerated (Fin totalEnergyConsumed);
          minSOC = Math_min_list (batterySOC s);
          finalSOC = (if batterySOC s = [] then None else Some (last (batterySOC s)));
          healthScore = (0::nat);
          healthScore = (if n_gt minSOC (Fin 0.20) then healthScore + 1 else healthScore);
          healthScore = (if n_gt minSOC (Fin 0.40) then healthScore + 1 else healthScore);
          healthScore = (if n_gt energyBalance (Fin 0) then healthScore + 1 else healthScore);
          healthScore = (if (case finalSOC of None \<Rightarrow> False | Some f \<Rightarrow> n_gt f (Fin 0.70))
                         then healthScore + 1 else healthScore);
          healthScore = (if n_gt avgPowerGenerated (n_mul avgPowerConsumed (Fin 1.2))
                         then healthScore + 1 else healthScore);
          viable = (n_gt minSOC (Fin 0.20) \<and> n_gt energyBalance (Fin 0))
      in Inr \<lparr>time = SimulationState.time s,
              power_generated = powerGenerated s,
              power_consumed = powerConsumed s,
              battery_soc = batterySOC s,
              temperature = SimulationState.temperature s,
              metrics = \<lparr>avg_power_generated = avgPowerGenerated,
                         peak_power_generated = peakPowerGenerated,
                         avg_power_consumed = avgPowerConsumed,
                         peak_power_consumed = peakPowerConsumed,
                         energy_balance = energyBalance,
                         min_soc = minSOC,
                         final_soc = finalSOC,
                         system_health = healthScore,
                         viable = viable\<rparr>\<rparr>)))"

section \<open>Notions of the specification\<close>

text \<open>The illumination factor of the glossary: \<^verbatim>\<open>max(0, cos(sun_angle))\<close>.\<close>

definition illumination_factor :: "real \<Rightarrow> real" where
  "illumination_factor t = max 0 (cos (getSunAngle t))"

text \<open>\<^verbatim>\<open>clamp(x, lo, hi)\<close>: \<open>lo\<close> below the range, \<open>hi\<close> above it, \<open>x\<close> otherwise.\<close>

definition spec_clamp :: "number \<Rightarrow> number \<Rightarrow> number \<Rightarrow> number" where
  "spec_clamp x lo hi = (if n_lt x lo then lo else if n_gt x hi then hi else x)"

text \<open>
  The energy of one step after the efficiency losses, in the words of the battery
  integrator's algorithm: a surplus is scaled by the charge efficiency, a deficit
  (or nothing) is divided by the discharge efficiency.
\<close>

definition spec_adjusted_energy :: "real \<Rightarrow> real \<Rightarrow> real \<Rightarrow> real \<Rightarrow> number" where
  "spec_adjusted_energy net_power time_step charge_eff discharge_eff =
     (if net_power * time_step > 0
      then Fin (net_power * time_step * charge_eff)
      else n_div (Fin (net_power * time_step)) (Fin discharge_eff))"

text \<open>
  The rules of the load model, each extra load triggered on its own.  The
  communication window is stated with the remainder of the engine's \<^verbatim>\<open>%\<close>, which for
  a time that is not negative is the usual remainder \<open>t - 6 * \<lfloor>t / 6\<rfloor>\<close>.
\<close>

definition spec_load_rules :: "real \<Rightarrow> real \<Rightarrow> real" where
  "spec_load_rules t b =
     b + (if illumination_factor t > 0 then 1.5 * b else 0)
       + (if js_rem t 6 < 0.5 then 0.8 * b else 0)
       + (if illumination_factor t \<le> 0 then 1.0 * b else 0)"

section \<open>The run in terms of its loop\<close>

text \<open>
  Names for the values that \<^verbatim>\<open>runSimulation\<close> computes before its loop, for the state
  in which the loop ends, and for the power that the body of the loop generates at a
  time \<open>t\<close>; the lemmas below show that the result is made of them.
\<close>

definition degradedConcentratorEff :: "SimulationConfig \<Rightarrow> number" where
  "degradedConcentratorEff config =
     (case concentrator config of
        Some conc \<Rightarrow> n_mul (Fin (ConcentratorTechnology.efficiency conc))
                       (Math_pow (1 - 0.001) (yearsInOperation config))
      | None \<Rightarrow> Fin 0)"

definition degradedPVEff :: "SimulationConfig \<Rightarrow> PVTechnology \<Rightarrow> number" where
  "degradedPVEff config pv =
     n_mul (Fin (PVTechnology.efficiency pv))
       (Math_pow (1 - degradation_rate pv) (yearsInOperation config))"

definition initialState :: SimulationState where
  "initialState = \<lparr>currentSOC = Fin 0.80, time = [], powerGenerated = [],
                    powerConsumed = [], batterySOC = [], temperature = []\<rparr>"

definition finalState ::
  "SimulationConfig \<Rightarrow> PVTechnology \<Rightarrow> BatteryTechnology \<Rightarrow> SimulationState" where
  "finalState config pv bat =
     simulationLoop config pv bat (degradedConcentratorEff config) (degradedPVEff config pv)
       0.1 \<lfloor>durationHours config / 0.1\<rfloor> 0 initialState"

text \<open>The result that \<^verbatim>\<open>runSimulation\<close> builds, after its loop, from the state \<open>s\<close> of the
  loop's variables.\<close>

definition simulationResult :: "SimulationState \<Rightarrow> SimulationResult" where
  "simulationResult s =
     (let timeStep = 0.1;
          avgPowerGenerated = n_div (foldl n_add (Fin 0) (powerGenerated s))
                                (Fin (real (length (powerGenerated s))));
          peakPowerGenerated = Math_max_list (powerGenerated s);
          avgPowerConsumed = n_div (Fin (foldl (+) 0 (powerConsumed s)))
                               (Fin (real (length (powerConsumed s))));
          peakPowerConsumed = Math_max_list (map Fin (powerConsumed s));
          totalEnergyGenerated =
            foldl (\<lambda>sum p. n_add sum (n_mul p (Fin timeStep))) (Fin 0) (powerGenerated s);
          totalEnergyConsumed = foldl (\<lambda>sum p. sum + p * timeStep) 0 (powerConsumed s);
          energyBalance = n_sub totalEnergyGenerated (Fin totalEnergyConsumed);
          minSOC = Math_min_list (batterySOC s);
          finalSOC = (if batterySOC s = [] then None else Some (last (batterySOC s)));
          healthScore = (0::nat);
          healthScore = (if n_gt minSOC (Fin 0.20) then healthScore + 1 else healthScore);
          healthScore = (if n_gt minSOC (Fin 0.40) then healthScore + 1 else healthScore);
          healthScore = (if n_gt energyBalance (Fin 0) then healthScore + 1 else healthScore);
          healthScore = (if (case finalSOC of None \<Rightarrow> False | Some f \<Rightarrow> n_gt f (Fin 0.70))
                         then healthScore + 1 else healthScore);
          healthScore = (if n_gt avgPowerGenerated (n_mul avgPowerConsumed (Fin 1.2))
                         then healthScore + 1 else healthScore);
          viable = (n_gt minSOC (Fin 0.20) \<and> n_gt energyBalance (Fin 0))
      in \<lparr>time = SimulationState.time s,
          power_generated = powerGenerated s,
          power_consumed = powerConsumed s,
          battery_soc = batterySOC s,
          temperature = SimulationState.temperature s,
          metrics = \<lparr>avg_power_generated = avgPowerGenerated,
                     peak_power_generated = peakPowerGenerated,
                     avg_power_consumed = avgPowerConsumed,
                     peak_power_consumed = peakPowerConsumed,
                     energy_balance = energyBalance,
                     min_soc = minSOC,
                     final_soc = finalSOC,
                     system_health = healthScore,
                     viable = viable\<rparr>\<rparr>)"

definition generatedPower ::
  "SimulationConfig \<Rightarrow> PVTechnology \<Rightarrow> number \<Rightarrow> number \<Rightarrow> real \<Rightarrow> number" where
  "generatedPower config pv concentratorEff pvEff t =
     (case concentrator config of
        Some conc \<Rightarrow>
          calculatePVPower
            (calculateConcentratorPower t (concentratorArea config) concentratorEff)
            (concentration_ratio conc) (pvArea config) pvEff (temp_coefficient pv)
            (getSurfaceTemperature (getSunAngle t))
      | None \<Rightarrow>
          n_mul (Fin (getSolarIrradiance * pvArea config * max 0 (cos (getSunAngle t))))
            (n_mul pvEff
               (Fin (max 0.1 (1 + temp_coefficient pv
                                    * (getSurfaceTemperature (getSunAngle t) - TEMP_REF))))))"


section \<open>Catalogue entries and configurations used as examples\<close>

definition quadJunctionIMM :: PVTechnology where
  "quadJunctionIMM =
     \<lparr>PVTechnology.name = ''Quad-junction IMM'', PVTechnology.efficiency = 0.34,
      temp_coefficient = - 0.003, degradation_rate = 0.003,
      PVTechnology.mass_per_m2 = 0.6, PVTechnology.trl = 8, PVTechnology.era = current\<rparr>"

definition lithiumIonNMC :: BatteryTechnology where
  "lithiumIonNMC =
     \<lparr>BatteryTechnology.name = ''Lithium-ion (NMC)'', energy_density = 220,
      cycle_life = 10000, charge_efficiency = 0.96, discharge_efficiency = 0.97,
      self_discharge_rate = 0.005, mass_per_wh = 0.0045, BatteryTechnology.trl = 9,
      BatteryTechnology.era = current\<rparr>"

definition linearFresnelReflector :: ConcentratorTechnology where
  "linearFresnelReflector =
     \<lparr>ConcentratorTechnology.name = ''Linear Fresnel Reflector'', concentration_ratio = 15,
      ConcentratorTechnology.efficiency = 0.85, ConcentratorTechnology.mass_per_m2 = 2.8,
      ConcentratorTechnology.trl = 7, ConcentratorTechnology.era = current\<rparr>"

text \<open>The preset \<^verbatim>\<open>No Concentrator\<close>: 8 square metres of cells, 10000 Wh, 100 W, 48 hours.\<close>

definition noConcentratorPreset :: SimulationConfig where
  "noConcentratorPreset =
     \<lparr>concentrator = None, pvCell = Some quadJunctionIMM, battery = Some lithiumIonNMC,
      concentratorArea = 0, pvArea = 8, batteryCapacity = 10000, baseLoad = 100,
      durationHours = 48, yearsInOperation = 0\<rparr>"

text \<open>The preset \<^verbatim>\<open>Baseline Mission\<close>, with the quad-junction cell.\<close>

definition concentratorConfig :: SimulationConfig where
  "concentratorConfig =
     \<lparr>concentrator = Some linearFresnelReflector, pvCell = Some quadJunctionIMM,
      battery = Some lithiumIonNMC, concentratorArea = 3, pvArea = 1,
      batteryCapacity = 8000, baseLoad = 100, durationHours = 48, yearsInOperation = 0\<rparr>"

text \<open>Variants of the preset: nothing generated and nothing consumed, for one step.\<close>

definition balancedConfig :: SimulationConfig where
  "balancedConfig = noConcentratorPreset\<lparr>pvArea := 0, baseLoad := 0, durationHours := 0.1\<rparr>"






section \<open>Invariants of the loop\<close>

text \<open>After \<open>k\<close> passes the series hold the values of the steps \<open>0, \<dots>, k - 1\<close>.\<close>

definition series_inv ::
  "SimulationConfig \<Rightarrow> PVTechnology \<Rightarrow> number \<Rightarrow> number \<Rightarrow> real \<Rightarrow> nat
     \<Rightarrow> SimulationState \<Rightarrow> bool" where
  "series_inv c pv ce pe ts k s \<longleftrightarrow>
     SimulationState.time s = map (\<lambda>i. real i * ts) [0..<k] \<and>
     powerGenerated s = map (\<lambda>i. generatedPower c pv ce pe (real i * ts)) [0..<k] \<and>
     powerConsumed s = map (\<lambda>i. calculatePowerConsumption (real i * ts) (baseLoad c)) [0..<k] \<and>
     SimulationState.temperature s
       = map (\<lambda>i. getSurfaceTemperature (getSunAngle (real i * ts))) [0..<k] \<and>
     length (batterySOC s) = k"


section \<open>Numbers\<close>


lemma Math_clamp_Fin: "Math_max (Fin lo) (Math_min (Fin hi) (Fin x)) = Fin (max lo (min hi x))"
  by (simp add: max_def min_def)

lemma clamp_Math: "n_le lo hi \<Longrightarrow> Math_max lo (Math_min hi x) = spec_clamp x lo hi"
  by (cases x; cases lo; cases hi) (auto simp: spec_clamp_def n_gt_def)



section \<open>Environment, load and battery\<close>



lemma illumination_pos_iff: "illumination_factor t > 0 \<longleftrightarrow> cos (getSunAngle t) > 0"
  by (simp add: illumination_factor_def max_def)


lemma sun_angle_0: "getSunAngle 0 = 0"
  by (simp add: getSunAngle_def js_rem_def js_trunc_def)


lemma surface_temperature_0: "getSurfaceTemperature (getSunAngle 0) = 270"
  by (simp add: getSurfaceTemperature_def sun_angle_0 TEMP_MIN_def TEMP_MAX_def)


lemma js_rem_nonneg: "0 \<le> t \<Longrightarrow> js_rem t 6 = t - 6 * of_int \<lfloor>t / 6\<rfloor>"
  by (simp add: js_rem_def js_trunc_def)

lemma load_eq_rules: "calculatePowerConsumption t b = spec_load_rules t b"
  by (simp add: calculatePowerConsumption_def spec_load_rules_def Let_def illumination_pos_iff
      not_less [symmetric])

lemma load_at_least_twice: "0 \<le> b \<Longrightarrow> 2 * b \<le> calculatePowerConsumption t b"
  by (simp add: calculatePowerConsumption_def Let_def)

lemma updateBatterySOC_Fin:
  assumes "cap \<noteq> 0" "de \<noteq> 0"
  shows "updateBatterySOC (Fin soc) (Fin net) cap ce de ts =
     Fin (max 0.15 (min 0.95
       (soc + (if 0 < net * ts then net * ts * ce else net * ts / de) / cap)))"
proof (cases "0 < net * ts")
  case True
  then show ?thesis using assms
    by (simp add: updateBatterySOC_def Let_def n_gt_def Math_clamp_Fin
        del: Math_max.simps Math_min.simps)
next
  case False
  then show ?thesis using assms
    by (simp add: updateBatterySOC_def Let_def n_gt_def Math_clamp_Fin
        del: Math_max.simps Math_min.simps)
qed


section \<open>The loop and the result\<close>

lemma simulationStep_fields:
  "SimulationState.time (simulationStep c pv bat ce pe ts k s)
     = SimulationState.time s @ [real k * ts]"
  "powerGenerated (simulationStep c pv bat ce pe ts k s)
     = powerGenerated s @ [generatedPower c pv ce pe (real k * ts)]"
  "powerConsumed (simulationStep c pv bat ce pe ts k s)
     = powerConsumed s @ [calculatePowerConsumption (real k * ts) (baseLoad c)]"
  "SimulationState.temperature (simulationStep c pv bat ce pe ts k s)
     = SimulationState.temperature s @ [getSurfaceTemperature (getSunAngle (real k * ts))]"
  "currentSOC (simulationStep c pv bat ce pe ts k s) =
     updateBatterySOC (currentSOC s)
       (n_sub (generatedPower c pv ce pe (real k * ts))
              (Fin (calculatePowerConsumption (real k * ts) (baseLoad c))))
       (batteryCapacity c) (charge_efficiency bat) (discharge_efficiency bat) ts"
  "batterySOC (simulationStep c pv bat ce pe ts k s)
     = batterySOC s @ [currentSOC (simulationStep c pv bat ce pe ts k s)]"
  by (simp_all add: simulationStep_def generatedPower_def calculatePVPower_def Let_def
      split: option.splits)

text \<open>
  A property that every pass of the body carries from index \<open>k\<close> to \<open>k + 1\<close> holds when
  the loop is left, at the index \<open>max step numSteps\<close>: the loop runs all its passes.
\<close>

lemma simulationLoop_invariant:
  assumes "I step s"
    and "\<And>k s'. step \<le> k \<Longrightarrow> int k < n \<Longrightarrow> I k s'
           \<Longrightarrow> I (Suc k) (simulationStep c pv bat ce pe ts k s')"
  shows "I (max step (nat n)) (simulationLoop c pv bat ce pe ts n step s)"
  using assms
proof (induction c pv bat ce pe ts n step s rule: simulationLoop.induct)
  case (1 c pv bat ce pe ts n step s)
  show ?case
  proof (cases "int step < n")
    case True
    have "I (Suc step) (simulationStep c pv bat ce pe ts step s)"
      using "1.prems" True by simp
    then have "I (max (Suc step) (nat n))
        (simulationLoop c pv bat ce pe ts n (Suc step)
           (simulationStep c pv bat ce pe ts step s))"
      using "1.IH"[OF True] "1.prems"(2) by simp
    moreover have "max (Suc step) (nat n) = max step (nat n)"
      using True by linarith
    ultimately show ?thesis
      using True by (simp add: simulationLoop.simps[of c pv bat ce pe ts n step s])
  next
    case False
    then have "max step (nat n) = step" by linarith
    then show ?thesis
      using False "1.prems"(1) by (simp add: simulationLoop.simps[of c pv bat ce pe ts n step s])
  qed
qed

lemma simulationLoop_cong:
  assumes "\<And>k s. simulationStep c' pv bat ce pe ts k s = simulationStep c pv bat ce pe ts k s"
  shows "simulationLoop c' pv bat ce pe ts n k s = simulationLoop c pv bat ce pe ts n k s"
  using assms
proof (induction c pv bat ce pe ts n k s rule: simulationLoop.induct)
  case (1 c pv bat ce pe ts n k s)
  show ?case
  proof (cases "int k < n")
    case True
    then show ?thesis
      using "1.IH"[OF True "1.prems"] "1.prems"
      by (simp add: simulationLoop.simps[of c' pv bat ce pe ts n k s]
          simulationLoop.simps[of c pv bat ce pe ts n k s])
  next
    case False
    then show ?thesis
      by (simp add: simulationLoop.simps[of c' pv bat ce pe ts n k s]
          simulationLoop.simps[of c pv bat ce pe ts n k s])
  qed
qed

lemma loop_one_step:
  "simulationLoop c pv bat ce pe ts 1 0 s = simulationStep c pv bat ce pe ts 0 s"
  by (simp add: simulationLoop.simps[of c pv bat ce pe ts 1])

lemma series_inv_step:
  "series_inv c pv ce pe ts k s
     \<Longrightarrow> series_inv c pv ce pe ts (Suc k) (simulationStep c pv bat ce pe ts k s)"
  by (simp add: series_inv_def simulationStep_fields)

lemma series_inv_final:
  "series_inv c pv (degradedConcentratorEff c) (degradedPVEff c pv) 0.1
     (nat \<lfloor>durationHours c / 0.1\<rfloor>) (finalState c pv bat)"
proof -
  have "series_inv c pv (degradedConcentratorEff c) (degradedPVEff c pv) 0.1 0 initialState"
    by (simp add: series_inv_def initialState_def)
  from simulationLoop_invariant[where
      I = "series_inv c pv (degradedConcentratorEff c) (degradedPVEff c pv) 0.1",
      OF this series_inv_step]
  show ?thesis by (simp add: finalState_def)
qed

lemma runSimulation_isl: "isl (runSimulation c) \<longleftrightarrow> (pvCell c = None \<or> battery c = None)"
  by (simp add: runSimulation_def Let_def split: option.splits)

lemma runSimulation_eq:
  "pvCell c = Some pv \<Longrightarrow> battery c = Some bat
     \<Longrightarrow> runSimulation c = Inr (simulationResult (finalState c pv bat))"
  unfolding runSimulation_def simulationResult_def finalState_def initialState_def
    degradedConcentratorEff_def degradedPVEff_def Let_def
  by simp

lemma runSimulation_InrD:
  assumes "runSimulation c = Inr r"
  obtains pv bat where "pvCell c = Some pv" "battery c = Some bat"
    "r = simulationResult (finalState c pv bat)"
proof -
  have "\<not> isl (runSimulation c)" using assms by simp
  then obtain pv bat where pb: "pvCell c = Some pv" "battery c = Some bat"
    by (auto simp: runSimulation_isl)
  then have "r = simulationResult (finalState c pv bat)"
    using assms runSimulation_eq by simp
  with pb show ?thesis by (rule that)
qed

lemma simulationResult_series:
  "time (simulationResult s) = SimulationState.time s"
  "power_generated (simulationResult s) = powerGenerated s"
  "power_consumed (simulationResult s) = powerConsumed s"
  "battery_soc (simulationResult s) = batterySOC s"
  "temperature (simulationResult s) = SimulationState.temperature s"
  unfolding simulationResult_def Let_def by simp_all

lemma simulationResult_metrics:
  "min_soc (metrics (simulationResult s)) = Math_min_list (batterySOC s)"
  "energy_balance (metrics (simulationResult s)) =
     n_sub (foldl (\<lambda>sum p. n_add sum (n_mul p (Fin 0.1))) (Fin 0) (powerGenerated s))
           (Fin (foldl (\<lambda>sum p. sum + p * 0.1) 0 (powerConsumed s)))"
  "viable (metrics (simulationResult s)) =
     (n_gt (min_soc (metrics (simulationResult s))) (Fin 0.20) \<and>
      n_gt (energy_balance (metrics (simulationResult s))) (Fin 0))"
  unfolding simulationResult_def Let_def by simp_all

text \<open>The series of a run, element by element.\<close>

lemma series_of_run:
  assumes "runSimulation c = Inr r" "pvCell c = Some pv"
  shows "length (time r) = nat \<lfloor>durationHours c / 0.1\<rfloor>"
    and "length (power_generated r) = nat \<lfloor>durationHours c / 0.1\<rfloor>"
    and "length (power_consumed r) = nat \<lfloor>durationHours c / 0.1\<rfloor>"
    and "length (battery_soc r) = nat \<lfloor>durationHours c / 0.1\<rfloor>"
    and "length (temperature r) = nat \<lfloor>durationHours c / 0.1\<rfloor>"
    and "i < nat \<lfloor>durationHours c / 0.1\<rfloor> \<Longrightarrow> time r ! i = real i * 0.1"
    and "i < nat \<lfloor>durationHours c / 0.1\<rfloor> \<Longrightarrow> power_generated r ! i =
           generatedPower c pv (degradedConcentratorEff c) (degradedPVEff c pv) (real i * 0.1)"
    and "i < nat \<lfloor>durationHours c / 0.1\<rfloor> \<Longrightarrow> power_consumed r ! i =
           calculatePowerConsumption (real i * 0.1) (baseLoad c)"
    and "i < nat \<lfloor>durationHours c / 0.1\<rfloor> \<Longrightarrow> temperature r ! i =
           getSurfaceTemperature (getSunAngle (real i * 0.1))"
proof -
  obtain pv' bat where pb: "pvCell c = Some pv'" "battery c = Some bat"
    and r: "r = simulationResult (finalState c pv' bat)"
    using assms(1) by (rule runSimulation_InrD)
  have pv: "pv' = pv" using pb(1) assms(2) by simp
  have inv: "series_inv c pv (degradedConcentratorEff c) (degradedPVEff c pv) 0.1
      (nat \<lfloor>durationHours c / 0.1\<rfloor>) (finalState c pv bat)"
    by (rule series_inv_final)
  note f = simulationResult_series[of "finalState c pv bat"]
  show "length (time r) = nat \<lfloor>durationHours c / 0.1\<rfloor>"
    and "length (power_generated r) = nat \<lfloor>durationHours c / 0.1\<rfloor>"
    and "length (power_consumed r) = nat \<lfloor>durationHours c / 0.1\<rfloor>"
    and "length (battery_soc r) = nat \<lfloor>durationHours c / 0.1\<rfloor>"
    and "length (temperature r) = nat \<lfloor>durationHours c / 0.1\<rfloor>"
    using inv unfolding r pv f series_inv_def by simp_all
  show "i < nat \<lfloor>durationHours c / 0.1\<rfloor> \<Longrightarrow> time r ! i = real i * 0.1"
    using inv unfolding r pv f series_inv_def by simp
  show "i < nat \<lfloor>durationHours c / 0.1\<rfloor> \<Longrightarrow> power_generated r ! i =
           generatedPower c pv (degradedConcentratorEff c) (degradedPVEff c pv) (real i * 0.1)"
    using inv unfolding r pv f series_inv_def by simp
  show "i < nat \<lfloor>durationHours c / 0.1\<rfloor> \<Longrightarrow> power_consumed r ! i =
           calculatePowerConsumption (real i * 0.1) (baseLoad c)"
    using inv unfolding r pv f series_inv_def by simp
  show "i < nat \<lfloor>durationHours c / 0.1\<rfloor> \<Longrightarrow> temperature r ! i =
           getSurfaceTemperature (getSunAngle (real i * 0.1))"
    using inv unfolding r pv f series_inv_def by simp
qed

text \<open>The preset is accepted, and runs 480 steps.\<close>

lemma preset_fields:
  "pvCell noConcentratorPreset = Some quadJunctionIMM"
  "battery noConcentratorPreset = Some lithiumIonNMC"
  "concentrator noConcentratorPreset = None"
  "pvArea noConcentratorPreset = 8"
  "concentratorArea noConcentratorPreset = 0"
  "batteryCapacity noConcentratorPreset = 10000"
  "baseLoad noConcentratorPreset = 100"
  "yearsInOperation noConcentratorPreset = 0"
  "durationHours noConcentratorPreset = 48"
  by (simp_all add: noConcentratorPreset_def)


lemma runSimulation_Inr_projr:
  "pvCell c = Some pv \<Longrightarrow> battery c = Some bat \<Longrightarrow> runSimulation c = Inr (projr (runSimulation c))"
  by (simp add: runSimulation_eq)

lemma balanced_fields:
  "pvCell balancedConfig = Some quadJunctionIMM"
  "battery balancedConfig = Some lithiumIonNMC"
  "concentrator balancedConfig = None"
  "pvArea balancedConfig = 0"
  "batteryCapacity balancedConfig = 10000"
  "baseLoad balancedConfig = 0"
  "yearsInOperation balancedConfig = 0"
  "durationHours balancedConfig = 0.1"
  by (simp_all add: balancedConfig_def noConcentratorPreset_def)

lemma generatedPower_no_area:
  "concentrator c = None \<Longrightarrow> pvArea c = 0 \<Longrightarrow> generatedPower c pv ce (Fin pe) t = Fin 0"
  by (simp add: generatedPower_def)

lemma degradedPVEff_new:
  "yearsInOperation c = 0 \<Longrightarrow> degradedPVEff c pv = Fin (PVTechnology.efficiency pv)"
  by (simp add: degradedPVEff_def Math_pow_def)

text \<open>The one step of the balanced configuration.\<close>

lemma finalState_balanced:
  "finalState balancedConfig quadJunctionIMM lithiumIonNMC =
     \<lparr>currentSOC = Fin 0.8, time = [0], powerGenerated = [Fin 0], powerConsumed = [0],
      batterySOC = [Fin 0.8], temperature = [270]\<rparr>"
proof -
  note c = balanced_fields
  have n: "\<lfloor>durationHours balancedConfig / 0.1\<rfloor> = 1" by (simp add: c)
  have p: "generatedPower balancedConfig quadJunctionIMM (degradedConcentratorEff balancedConfig)
             (degradedPVEff balancedConfig quadJunctionIMM) 0 = Fin 0"
    by (simp add: degradedPVEff_new c generatedPower_no_area)
  have l: "calculatePowerConsumption 0 0 = 0"
    by (simp add: calculatePowerConsumption_def Let_def)
  have u: "updateBatterySOC (Fin 0.8) (Fin 0) 10000 0.96 0.97 0.1 = Fin 0.8"
    by (simp add: updateBatterySOC_Fin)
  show ?thesis
    unfolding finalState_def n loop_one_step
    by (rule SimulationState.equality)
      (simp_all add: simulationStep_fields initialState_def p l c u[simplified] n_sub_def
        surface_temperature_0 lithiumIonNMC_def)
qed

lemma balanced_metrics:
  "energy_balance (metrics (simulationResult
     (finalState balancedConfig quadJunctionIMM lithiumIonNMC))) = Fin 0"
  "min_soc (metrics (simulationResult
     (finalState balancedConfig quadJunctionIMM lithiumIonNMC))) = Fin 0.8"
  unfolding simulationResult_metrics finalState_balanced
  by (simp_all add: n_sub_def Math_min_list_def)

section \<open>The battery integrator\<close>

text \<open>
  C3.  For every current state of charge, net power, strictly positive battery
  capacity, charge and discharge efficiency and time step, \<^verbatim>\<open>updateBatterySOC\<close> returns
  \<^verbatim>\<open>clamp(soc + adjusted_energy / capacity, 0.15, 0.95)\<close>, where the adjusted energy is
  \<^verbatim>\<open>net_power * time_step * charge_efficiency\<close> for a positive
  \<^verbatim>\<open>net_power * time_step\<close>, and \<^verbatim>\<open>(net_power * time_step) / discharge_efficiency\<close>
  otherwise.  The state of charge may be any number, also one that an earlier step
  has left infinite or NaN; a division by a zero discharge efficiency is the
  engine's, on both sides.
\<close>

theorem updateBatterySOC_clamped_integration:
  assumes "0 < capacity"
  shows "updateBatterySOC soc (Fin net) capacity chargeEff dischargeEff ts =
           spec_clamp (n_add soc (n_div (spec_adjusted_energy net ts chargeEff dischargeEff) (Fin capacity)))
             (Fin 0.15) (Fin 0.95)"
proof -
  have energy:
    "(if n_gt (n_mul (Fin net) (Fin ts)) (Fin 0)
      then n_mul (n_mul (Fin net) (Fin ts)) (Fin chargeEff)
      else n_div (n_mul (Fin net) (Fin ts)) (Fin dischargeEff))
     = spec_adjusted_energy net ts chargeEff dischargeEff"
    by (simp add: spec_adjusted_energy_def n_gt_def)
  have bounds: "n_le (Fin 0.15) (Fin 0.95)"
    by simp
  show ?thesis
    unfolding updateBatterySOC_def Let_def energy
    by (rule clamp_Math [OF bounds])
qed

text \<open>A surplus and a deficit of 100 W over one step, on 10000 Wh at 80 %.\<close>

theorem updateBatterySOC_clamped_integration_witness:
  "(0::real) < 10000 \<and>
   updateBatterySOC (Fin 0.8) (Fin 100) 10000 0.96 0.97 0.1 =
     spec_clamp (n_add (Fin 0.8) (n_div (spec_adjusted_energy 100 0.1 0.96 0.97) (Fin 10000)))
       (Fin 0.15) (Fin 0.95) \<and>
   updateBatterySOC (Fin 0.8) (Fin 100) 10000 0.96 0.97 0.1 = Fin 0.80096 \<and>
   updateBatterySOC (Fin 0.8) (Fin (- 100)) 10000 0.96 0.97 0.1 = Fin (155 / 194)"
proof -
  have h: "(0::real) < 10000" by simp
  have "spec_clamp (n_add (Fin 0.8) (n_div (spec_adjusted_energy 100 0.1 0.96 0.97) (Fin 10000)))
       (Fin 0.15) (Fin 0.95) = Fin 0.80096"
    by (simp add: spec_clamp_def spec_adjusted_energy_def n_gt_def)
  moreover have
    "spec_clamp (n_add (Fin 0.8) (n_div (spec_adjusted_energy (- 100) 0.1 0.96 0.97) (Fin 10000)))
       (Fin 0.15) (Fin 0.95) = Fin (155 / 194)"
    by (simp add: spec_clamp_def spec_adjusted_energy_def n_gt_def)
  ultimately show ?thesis
    using h updateBatterySOC_clamped_integration [OF h, of "Fin 0.8" 100 "0.96" "0.97" "0.1"]
      updateBatterySOC_clamped_integration [OF h, of "Fin 0.8" "- 100" "0.96" "0.97" "0.1"]
    by simp
qed

section \<open>Configuration errors\<close>



section \<open>Viability\<close>

text \<open>
  C2.  For every completed run the returned metrics satisfy
  \<^verbatim>\<open>viable = (min_soc > 0.20 AND energy_balance > 0)\<close>, both comparisons strict; in
  particular a run whose energy balance is exactly 0 is not viable, whatever its
  minimum state of charge.  The two metrics are the minimum of the \<^verbatim>\<open>battery_soc\<close>
  series and the generated minus the consumed energy of the series.
\<close>

theorem viable_iff_min_soc_and_balance:
  assumes "runSimulation c = Inr r"
  shows "viable (metrics r) =
           (n_gt (min_soc (metrics r)) (Fin 0.20) \<and> n_gt (energy_balance (metrics r)) (Fin 0))
         \<and> (energy_balance (metrics r) = Fin 0 \<longrightarrow> \<not> viable (metrics r))
         \<and> min_soc (metrics r) = Math_min_list (battery_soc r)
         \<and> energy_balance (metrics r) =
             n_sub (foldl (\<lambda>sum p. n_add sum (n_mul p (Fin 0.1))) (Fin 0) (power_generated r))
                   (Fin (foldl (\<lambda>sum p. sum + p * 0.1) 0 (power_consumed r)))"
proof -
  obtain pv bat where r: "r = simulationResult (finalState c pv bat)"
    using assms by (rule runSimulation_InrD)
  have v: "viable (metrics r) =
           (n_gt (min_soc (metrics r)) (Fin 0.20) \<and> n_gt (energy_balance (metrics r)) (Fin 0))"
    unfolding r by (rule simulationResult_metrics(3))
  have m: "min_soc (metrics r) = Math_min_list (battery_soc r)"
    unfolding r simulationResult_series by (rule simulationResult_metrics(1))
  have e: "energy_balance (metrics r) =
             n_sub (foldl (\<lambda>sum p. n_add sum (n_mul p (Fin 0.1))) (Fin 0) (power_generated r))
                   (Fin (foldl (\<lambda>sum p. sum + p * 0.1) 0 (power_consumed r)))"
    unfolding r simulationResult_series by (rule simulationResult_metrics(2))
  have "energy_balance (metrics r) = Fin 0 \<longrightarrow> \<not> viable (metrics r)"
    using v by (auto simp add: n_gt_def)
  with v m e show ?thesis by blast
qed

text \<open>A run with nothing generated and nothing consumed: the balance is exactly 0, the
  minimum state of charge is 0.8, and the run is not viable.\<close>

theorem viable_iff_min_soc_and_balance_witness:
  "runSimulation balancedConfig = Inr (projr (runSimulation balancedConfig)) \<and>
   energy_balance (metrics (projr (runSimulation balancedConfig))) = Fin 0 \<and>
   n_gt (min_soc (metrics (projr (runSimulation balancedConfig)))) (Fin 0.20) \<and>
   \<not> viable (metrics (projr (runSimulation balancedConfig)))"
proof -
  have r: "runSimulation balancedConfig = Inr (projr (runSimulation balancedConfig))"
    by (rule runSimulation_Inr_projr) (simp_all add: balanced_fields)
  have p: "projr (runSimulation balancedConfig)
      = simulationResult (finalState balancedConfig quadJunctionIMM lithiumIonNMC)"
    by (simp add: runSimulation_eq balanced_fields)
  have "energy_balance (metrics (projr (runSimulation balancedConfig))) = Fin 0"
    "n_gt (min_soc (metrics (projr (runSimulation balancedConfig)))) (Fin 0.20)"
    unfolding p balanced_metrics by (simp_all add: n_gt_def)
  then show ?thesis
    using r viable_iff_min_soc_and_balance [OF r] by (simp add: n_gt_def)
qed

section \<open>Further facts about the run\<close>

lemma load_at_0: "calculatePowerConsumption 0 b = b + b * 1.5 + b * 0.8"
  by (simp add: calculatePowerConsumption_def Let_def sun_angle_0 js_rem_def js_trunc_def)

lemma preset_run: "runSimulation noConcentratorPreset = Inr (projr (runSimulation noConcentratorPreset))"
  by (rule runSimulation_Inr_projr) (simp_all add: preset_fields)

lemma preset_steps: "nat \<lfloor>durationHours noConcentratorPreset / 0.1\<rfloor> = 480"
  by (simp add: preset_fields)










lemma simulationStep_pvArea:
  "concentrator c = Some conc \<Longrightarrow>
     simulationStep (c\<lparr>pvArea := a\<rparr>) pv bat ce pe ts k s = simulationStep c pv bat ce pe ts k s"
  by (simp add: simulationStep_def calculatePVPower_def Let_def)

lemma finalState_pvArea:
  assumes "concentrator c = Some conc"
  shows "finalState (c\<lparr>pvArea := a\<rparr>) pv bat = finalState c pv bat"
proof -
  have "degradedConcentratorEff (c\<lparr>pvArea := a\<rparr>) = degradedConcentratorEff c"
    "degradedPVEff (c\<lparr>pvArea := a\<rparr>) pv = degradedPVEff c pv"
    by (simp_all add: degradedConcentratorEff_def degradedPVEff_def split: option.splits)
  then show ?thesis
    unfolding finalState_def
    by (simp add: simulationLoop_cong[OF simulationStep_pvArea[OF assms]])
qed










section \<open>The state of charge stays in its range\<close>




section \<open>Length of the series\<close>




section \<open>The load model\<close>

text \<open>
  C6, as amended.  For every time and base load \<open>b\<close> the load model returns the sum
  of: \<open>b\<close>; \<open>1.5 b\<close> when the illumination factor is positive; \<open>0.8 b\<close> when
  \<^verbatim>\<open>t % 6 < 0.5\<close>; \<open>1.0 b\<close> when the illumination factor is not positive.  The
  remainder is the usual one for a time that is not negative.  The result is at
  least \<open>b\<close> whenever \<open>b\<close> is not negative.
\<close>

theorem load_is_sum_of_rules:
  "calculatePowerConsumption t b = spec_load_rules t b \<and>
   (0 \<le> t \<longrightarrow> js_rem t 6 = t - 6 * of_int \<lfloor>t / 6\<rfloor>) \<and>
   (0 \<le> b \<longrightarrow> b \<le> calculatePowerConsumption t b)"
proof -
  have "0 \<le> b \<Longrightarrow> b \<le> calculatePowerConsumption t b"
    using load_at_least_twice [of b t] by simp
  then show ?thesis by (simp add: load_eq_rules [symmetric] js_rem_nonneg)
qed

theorem load_is_sum_of_rules_witness:
  "calculatePowerConsumption 0 100 = spec_load_rules 0 100 \<and>
   (0::real) \<le> 0 \<and> js_rem 0 6 = 0 - 6 * of_int \<lfloor>0 / 6 :: real\<rfloor> \<and>
   (0::real) \<le> 100 \<and> 100 \<le> calculatePowerConsumption 0 100 \<and>
   calculatePowerConsumption 0 100 = 330"
  using load_is_sum_of_rules [of 0 100] by (simp add: load_at_0)

text \<open>
  As stated, with a result that is always at least the base load, C6 fails for a
  negative base load: every extra load is then negative.
\<close>

theorem load_below_negative_base_load:
  "calculatePowerConsumption 0 (- 1) = - 3.3 \<and> calculatePowerConsumption 0 (- 1) < - 1"
  by (simp add: load_at_0)

text \<open>
  C10, as amended.  For every time and every base load \<open>b \<ge> 0\<close> the consumed power
  is at least \<open>2 b\<close>, at every step of a run too; for \<open>b > 0\<close> it therefore never
  equals the bare base load.
\<close>

theorem consumption_at_least_twice_base_load:
  assumes "0 \<le> b"
  shows "2 * b \<le> calculatePowerConsumption t b \<and>
         (0 < b \<longrightarrow> calculatePowerConsumption t b \<noteq> b) \<and>
         (runSimulation c = Inr r \<and> baseLoad c = b \<and> i < length (power_consumed r)
            \<longrightarrow> 2 * b \<le> power_consumed r ! i \<and> (0 < b \<longrightarrow> power_consumed r ! i \<noteq> b))"
proof -
  have f: "2 * b \<le> calculatePowerConsumption t' b" for t'
    using assms by (rule load_at_least_twice)
  have g: "0 < b \<Longrightarrow> calculatePowerConsumption t' b \<noteq> b" for t'
    using f [of t'] by simp
  have "2 * b \<le> power_consumed r ! i \<and> (0 < b \<longrightarrow> power_consumed r ! i \<noteq> b)"
    if r: "runSimulation c = Inr r" and b: "baseLoad c = b" and i: "i < length (power_consumed r)"
  proof -
    obtain pv bat where pv: "pvCell c = Some pv" and "battery c = Some bat"
      using r by (rule runSimulation_InrD)
    have "i < nat \<lfloor>durationHours c / 0.1\<rfloor>"
      using i series_of_run(3) [OF r pv] by simp
    then have "power_consumed r ! i = calculatePowerConsumption (real i * 0.1) b"
      using series_of_run(8) [OF r pv] b by simp
    then show ?thesis using f g by auto
  qed
  then show ?thesis using f g by blast
qed

theorem consumption_at_least_twice_base_load_witness:
  "(0::real) \<le> 100 \<and> 200 \<le> calculatePowerConsumption 0 100 \<and>
   calculatePowerConsumption 0 100 \<noteq> 100 \<and>
   runSimulation noConcentratorPreset = Inr (projr (runSimulation noConcentratorPreset)) \<and>
   baseLoad noConcentratorPreset = 100 \<and>
   5 < length (power_consumed (projr (runSimulation noConcentratorPreset))) \<and>
   200 \<le> power_consumed (projr (runSimulation noConcentratorPreset)) ! 5 \<and>
   power_consumed (projr (runSimulation noConcentratorPreset)) ! 5 \<noteq> 100"
proof -
  have h: "(0::real) \<le> 100" by simp
  have l: "5 < length (power_consumed (projr (runSimulation noConcentratorPreset)))"
    using series_of_run(3) [OF preset_run preset_fields(1)] preset_steps by simp
  show ?thesis
    using consumption_at_least_twice_base_load
      [OF h, of 0 noConcentratorPreset "projr (runSimulation noConcentratorPreset)" 5]
      preset_run l
    by (simp add: preset_fields)
qed

text \<open>
  As stated, for every base load \<open>b \<ge> 0\<close>, the last part of C10 fails at \<open>b = 0\<close>:
  the recorded consumption is 0, the bare base load.
\<close>

theorem consumption_equals_zero_base_load:
  "(0::real) \<le> baseLoad balancedConfig \<and>
   runSimulation balancedConfig = Inr (projr (runSimulation balancedConfig)) \<and>
   0 < length (power_consumed (projr (runSimulation balancedConfig))) \<and>
   power_consumed (projr (runSimulation balancedConfig)) ! 0 = baseLoad balancedConfig"
proof -
  have r: "runSimulation balancedConfig = Inr (projr (runSimulation balancedConfig))"
    by (rule runSimulation_Inr_projr) (simp_all add: balanced_fields)
  have p: "projr (runSimulation balancedConfig)
      = simulationResult (finalState balancedConfig quadJunctionIMM lithiumIonNMC)"
    by (simp add: runSimulation_eq balanced_fields)
  have "power_consumed (projr (runSimulation balancedConfig)) = [0]"
    unfolding p simulationResult_series finalState_balanced by simp
  then show ?thesis using r by (simp add: balanced_fields)
qed

section \<open>The PV area behind a concentrator\<close>

text \<open>
  C9.  With a concentrator configured the PV area has no effect: two configurations
  that differ in \<^verbatim>\<open>pvArea\<close> only have the same outcome, and \<^verbatim>\<open>calculatePVPower\<close> has
  the same value whatever its concentration ratio and PV area.
\<close>

theorem pvArea_without_effect_behind_concentrator:
  assumes "concentrator c \<noteq> None"
  shows "runSimulation (c\<lparr>pvArea := a\<rparr>) = runSimulation c \<and>
         calculatePVPower p ratio area e tc temp = calculatePVPower p ratio' area' e tc temp"
proof -
  obtain conc where conc: "concentrator c = Some conc" using assms by auto
  have "runSimulation (c\<lparr>pvArea := a\<rparr>) = runSimulation c"
  proof (cases "pvCell c")
    case None
    then show ?thesis by (simp add: runSimulation_def)
  next
    case pv: (Some pv)
    show ?thesis
    proof (cases "battery c")
      case None
      then show ?thesis by (simp add: runSimulation_def pv)
    next
      case (Some bat)
      show ?thesis
        using pv Some by (simp add: runSimulation_eq[of _ pv bat] finalState_pvArea[OF conc])
    qed
  qed
  then show ?thesis by (simp add: calculatePVPower_def)
qed

theorem pvArea_without_effect_behind_concentrator_witness:
  "concentrator concentratorConfig \<noteq> None \<and>
   pvArea (concentratorConfig\<lparr>pvArea := 7\<rparr>) \<noteq> pvArea concentratorConfig \<and>
   runSimulation (concentratorConfig\<lparr>pvArea := 7\<rparr>) = runSimulation concentratorConfig \<and>
   (\<exists>r. runSimulation concentratorConfig = Inr r)"
proof -
  have h: "concentrator concentratorConfig \<noteq> None" by (simp add: concentratorConfig_def)
  have "\<not> isl (runSimulation concentratorConfig)"
    by (simp add: runSimulation_isl concentratorConfig_def)
  then have "\<exists>r. runSimulation concentratorConfig = Inr r"
    by (cases "runSimulation concentratorConfig") simp_all
  then show ?thesis
    using h pvArea_without_effect_behind_concentrator [OF h, of 7]
    by (simp add: concentratorConfig_def)
qed

section \<open>Generated power\<close>







end
